theory Spec2Isabelle
  imports Main
begin

section \<open>Python strings\<close>

text \<open>
  A Python \<open>str\<close> is modelled as a \<open>string\<close>; a character stands for the code point of
  the same number, so the model covers the code points below 256. The helpers below are
  the string methods that \<open>gmail_client.py\<close> and \<open>email_agents.py\<close> call.
\<close>

text \<open>\<open>str.isspace\<close> on one character: TAB..CR, FS..US, SPACE, NEL and NBSP.\<close>

definition isspace :: "char \<Rightarrow> bool" where
  "isspace c =
     (let n = (of_char c :: nat)
      in (9 \<le> n \<and> n \<le> 13) \<or> (28 \<le> n \<and> n \<le> 32) \<or> n = 133 \<or> n = 160)"

text \<open>\<open>s.strip()\<close>: leading and trailing whitespace removed.\<close>

definition strip :: "string \<Rightarrow> string" where
  "strip s = rev (dropWhile isspace (rev (dropWhile isspace s)))"

text \<open>\<open>str.lower\<close>: the upper-case letters below 256 are A..Z and U+00C0..U+00DE without
  the multiplication sign U+00D7; each has its lower-case partner 32 places further.\<close>

definition lower_char :: "char \<Rightarrow> char" where
  "lower_char c =
     (let n = (of_char c :: nat)
      in if (65 \<le> n \<and> n \<le> 90) \<or> (192 \<le> n \<and> n \<le> 222 \<and> n \<noteq> 215)
         then char_of (n + 32) else c)"

definition lower :: "string \<Rightarrow> string" where
  "lower s = map lower_char s"

text \<open>\<open>s.startswith(p)\<close>.\<close>

fun startswith :: "string \<Rightarrow> string \<Rightarrow> bool" where
  "startswith s [] = True"
| "startswith [] (p # ps) = False"
| "startswith (c # cs) (p # ps) = (c = p \<and> startswith cs ps)"

text \<open>\<open>sub in s\<close>: \<open>sub\<close> occurs in \<open>s\<close> as a contiguous run.\<close>

fun contains :: "string \<Rightarrow> string \<Rightarrow> bool" where
  "contains [] sub = (sub = [])"
| "contains (c # cs) sub = (startswith (c # cs) sub \<or> contains cs sub)"

text \<open>\<open>s.split(sep)[0]\<close> for a non-empty \<open>sep\<close>: the text before the first occurrence
  of \<open>sep\<close>, and all of \<open>s\<close> when there is none.\<close>

fun split_first :: "string \<Rightarrow> string \<Rightarrow> string" where
  "split_first [] sep = []"
| "split_first (c # cs) sep =
     (if startswith (c # cs) sep then [] else c # split_first cs sep)"

text \<open>Truthiness of \<open>x\<close> where \<open>x\<close> is \<open>None\<close> or a string, and \<open>a or b\<close> on such values.\<close>

fun truthy :: "string option \<Rightarrow> bool" where
  "truthy None = False"
| "truthy (Some s) = (s \<noteq> [])"

definition py_or :: "string option \<Rightarrow> string option \<Rightarrow> string option" where
  "py_or a b = (if truthy a then a else b)"

section \<open>Exceptions, outcomes and the observable world\<close>

text \<open>
  The exceptions that the two modules can meet. All of them derive from \<open>Exception\<close>.
  \<open>HttpError\<close> is the one class that \<open>read_message\<close> catches; \<open>BinasciiError\<close> is what
  \<open>base64.urlsafe_b64decode\<close> raises on malformed data; \<open>TypeError\<close> and \<open>KeyError\<close>
  come from the interpreter; \<open>HeaderParseError\<close> is what the \<open>email\<close> package raises
  when a header value cannot be written; \<open>OtherException\<close> stands for anything else a
  library call raises (a socket timeout, a provider failure).
\<close>

datatype exn =
  HttpError | BinasciiError | TypeError | KeyError | HeaderParseError | OtherException string

datatype 'a outcome = Returned 'a | Raised exn

text \<open>
  The calls that a run is observed by. \<open>CreateDraft to subject body\<close> is the entry into
  the gateway's method \<open>create_draft\<close> with its three arguments. The others leave the
  process: the methods of the Gmail REST API (\<open>DraftsCreate raw\<close> carries the encoded
  message; the two methods that send mail are listed although no code path uses them)
  and the two crew kick-offs with the data that is formatted into their task
  descriptions.
\<close>

datatype event =
    MessagesList nat
  | MessagesGet string
  | CreateDraft string string string
  | DraftsCreate string
  | MessagesSend string
  | DraftsSend string
  | KickoffDecision string string string
  | KickoffDraft string "string option"

datatype stdout_target = OriginalStdout | CaptureBuffer

record world =
  stdout :: stdout_target
  calls :: "event list"

definition emit :: "event \<Rightarrow> world \<Rightarrow> world" where
  "emit e w = w\<lparr>calls := calls w @ [e]\<rparr>"

section \<open>The mail gateway (\<open>gmail_client.py\<close>)\<close>

text \<open>A MIME part of the API's message resource: \<open>headers\<close>, \<open>mimeType\<close> (may be
  missing), \<open>body.data\<close> (base64url text, may be missing) and \<open>parts\<close> (may be missing).\<close>

datatype part =
  Part (headers: "(string \<times> string) list") (mimeType: "string option")
       (body_data: "string option") (parts: "part list option")

text \<open>JSON values of an API response, as far as the code looks into them.\<close>

datatype json = JString string | JObject "(string \<times> json) list"

text \<open>The normalized message that \<open>read_message\<close> returns.\<close>

record message =
  sender :: string
  subject :: string
  body :: string
  body_html :: string

text \<open>
  What lies outside the repository is a parameter of the model: the responses of the
  Gmail API (\<open>Inl\<close> when \<open>execute()\<close> raises), the decoder
  \<open>base64.urlsafe_b64decode(data).decode("utf-8", errors="ignore")\<close> (\<open>None\<close> when it
  raises \<open>binascii.Error\<close>), BeautifulSoup's \<open>get_text(separator="\\n")\<close>, and the
  message builder of lines 132 to 135 of \<open>gmail_client.py\<close>: \<open>MIMEText(body)\<close>, the two
  header assignments and \<open>base64.urlsafe_b64encode(message.as_bytes()).decode()\<close>, which
  yield the encoded message or raise (\<open>HeaderParseError\<close> when \<open>to\<close> or \<open>subject\<close>
  holds a line break followed by something that reads as a header name).
\<close>

record gateway =
  messages_list :: "nat \<Rightarrow> exn + string list option"
  messages_get :: "string \<Rightarrow> exn + part option"
  drafts_create :: "string \<Rightarrow> exn + (string \<times> json) list"
  mime_message :: "string \<Rightarrow> string \<Rightarrow> string \<Rightarrow> exn + string"
  b64decode :: "string \<Rightarrow> string option"
  get_text :: "string \<Rightarrow> string"

text \<open>\<open>next((h["value"] for h in headers if h["name"] == name), default)\<close>.\<close>

fun header :: "(string \<times> string) list \<Rightarrow> string \<Rightarrow> string \<Rightarrow> string" where
  "header [] name dflt = dflt"
| "header ((n, v) # hs) name dflt = (if n = name then v else header hs name dflt)"

text \<open>
  \<open>extract_parts\<close>: the depth-first walk over the parts, appending to the two
  accumulators \<open>body\<close> and \<open>body_html\<close>. The result is \<open>None\<close> when a decode raises.
\<close>

fun extract_part :: "(string \<Rightarrow> string option) \<Rightarrow> part \<Rightarrow> string \<times> string \<Rightarrow> (string \<times> string) option"
  and extract_parts :: "(string \<Rightarrow> string option) \<Rightarrow> part list \<Rightarrow> string \<times> string \<Rightarrow> (string \<times> string) option"
  and extract_sub :: "(string \<Rightarrow> string option) \<Rightarrow> part list option \<Rightarrow> string \<times> string \<Rightarrow> (string \<times> string) option"
where
  "extract_part dec (Part hs mt dat ps) (b, h) =
     (if truthy dat
      then (case dec (the dat) of
              None \<Rightarrow> None
            | Some decoded \<Rightarrow>
                if mt = Some ''text/plain'' then extract_sub dec ps (b @ decoded, h)
                else if mt = Some ''text/html'' then extract_sub dec ps (b, h @ decoded)
                else extract_sub dec ps (b, h))
      else extract_sub dec ps (b, h))"
| "extract_parts dec [] acc = Some acc"
| "extract_parts dec (p # ps) acc =
     (case extract_part dec p acc of None \<Rightarrow> None | Some acc' \<Rightarrow> extract_parts dec ps acc')"
| "extract_sub dec None acc = Some acc"
| "extract_sub dec (Some ps) acc = extract_parts dec ps acc"

text \<open>Lines 79 to 121 of \<open>read_message\<close>: the decoding of a fetched message resource.
  A resource without \<open>payload\<close> is read as the empty payload.\<close>

definition decode_payload :: "gateway \<Rightarrow> part option \<Rightarrow> message outcome" where
  "decode_payload g pl =
     (let payload = (case pl of None \<Rightarrow> Part [] None None None | Some p \<Rightarrow> p);
          hs = headers payload;
          sender = header hs ''From'' ''Unknown'';
          subject = header hs ''Subject'' ''No Subject'';
          extracted =
            (case parts payload of
               Some ps \<Rightarrow> extract_parts (b64decode g) ps ([], [])
             | None \<Rightarrow>
                 if truthy (body_data payload)
                 then (case b64decode g (the (body_data payload)) of
                         None \<Rightarrow> None
                       | Some decoded \<Rightarrow> Some (decoded, []))
                 else Some ([], []))
      in case extracted of
           None \<Rightarrow> Raised BinasciiError
         | Some (b, h) \<Rightarrow>
             let b' = (if b = [] \<and> h \<noteq> [] then get_text g h else b)
             in Returned \<lparr>sender = sender, subject = subject,
                          body = strip b', body_html = strip h\<rparr>)"

text \<open>\<open>read_message\<close>: \<open>None\<close> is returned for \<open>HttpError\<close> and for nothing else.\<close>

definition read_message :: "gateway \<Rightarrow> string \<Rightarrow> world \<Rightarrow> message option outcome \<times> world" where
  "read_message g msg_id w =
     (let w1 = emit (MessagesGet msg_id) w
      in case messages_get g msg_id of
           Inl HttpError \<Rightarrow> (Returned None, w1)
         | Inl e \<Rightarrow> (Raised e, w1)
         | Inr pl \<Rightarrow>
             (case decode_payload g pl of
                Raised e \<Rightarrow> (Raised e, w1)
              | Returned m \<Rightarrow> (Returned (Some m), w1)))"

text \<open>\<open>list_messages\<close>: \<open>results.get("messages", [])\<close>.\<close>

definition list_messages :: "gateway \<Rightarrow> nat \<Rightarrow> world \<Rightarrow> string list outcome \<times> world" where
  "list_messages g max_results w =
     (let w1 = emit (MessagesList max_results) w
      in case messages_list g max_results of
           Inl e \<Rightarrow> (Raised e, w1)
         | Inr None \<Rightarrow> (Returned [], w1)
         | Inr (Some ms) \<Rightarrow> (Returned ms, w1))"

text \<open>
  \<open>create_draft\<close>: the message is built from \<open>body\<close>, \<open>to\<close> and \<open>subject\<close> and
  encoded; when that raises, no request is made. Otherwise the encoded message goes to
  \<open>drafts().create\<close>; the print of \<open>draft['id']\<close> raises \<open>KeyError\<close> when the response
  has no such entry; the value returned is the response \<open>draft\<close> itself.
\<close>

definition create_draft :: "gateway \<Rightarrow> string \<Rightarrow> string \<Rightarrow> string \<Rightarrow> world \<Rightarrow> json outcome \<times> world" where
  "create_draft g to subj bdy w =
     (let w1 = emit (CreateDraft to subj bdy) w
      in case mime_message g to subj bdy of
           Inl e \<Rightarrow> (Raised e, w1)
         | Inr raw_message \<Rightarrow>
             let w2 = emit (DraftsCreate raw_message) w1
             in case drafts_create g raw_message of
                  Inl e \<Rightarrow> (Raised e, w2)
                | Inr draft \<Rightarrow>
                    (case map_of draft ''id'' of
                       None \<Rightarrow> (Raised KeyError, w2)
                     | Some i \<Rightarrow> (Returned (JObject draft), w2)))"

section \<open>The orchestrator (\<open>email_agents.py\<close>)\<close>

text \<open>
  A task output of the agent framework: the three attributes that the code probes with
  \<open>getattr(..., None)\<close> (\<open>None\<close> when absent or \<open>None\<close>) and its \<open>str()\<close>. A crew
  result: \<open>tasks_output\<close> (\<open>None\<close> when \<open>hasattr\<close> is false) and its \<open>str()\<close>, which
  is \<open>None\<close> when \<open>__str__\<close> raises, the case the code guards with
  \<open>except Exception: pass\<close>.
\<close>

record task_output =
  output_text :: "string option"
  raw_output :: "string option"
  final_output :: "string option"
  str_text :: string

record crew_output =
  tasks_output :: "task_output list option"
  crew_str :: "string option"

text \<open>
  The two \<open>kickoff()\<close> calls of a run. Each is made at most once, so its behaviour in one
  run is one outcome; the drafting call also yields what it prints while it runs.
\<close>

record crews =
  decision_kickoff :: "exn + crew_output"
  draft_kickoff :: "string \<times> (exn + crew_output)"

text \<open>
  The print statements are left out: they decide nothing, with one exception, the print
  of \<open>draft['id']\<close> in \<open>create_draft\<close>, which is modelled there. The module-level
  \<open>gmail.authenticate()\<close> has run before \<open>run_email_automation\<close> is entered.
\<close>

text \<open>\<open>get_latest_email\<close>: lines 74 to 88.\<close>

definition get_latest_email :: "gateway \<Rightarrow> world \<Rightarrow> message option outcome \<times> world" where
  "get_latest_email g w =
     (case list_messages g 1 w of
        (Raised e, w1) \<Rightarrow> (Raised e, w1)
      | (Returned ms, w1) \<Rightarrow>
          (case ms of
             [] \<Rightarrow> (Returned None, w1)
           | mid # rest \<Rightarrow> read_message g mid w1))"

text \<open>Lines 132 to 135: the first truthy attribute, else \<open>str(task_output)\<close>.\<close>

definition output_value :: "task_output \<Rightarrow> string" where
  "output_value t =
     (case py_or (py_or (output_text t) (raw_output t)) (final_output t) of
        None \<Rightarrow> str_text t
      | Some s \<Rightarrow> if s \<noteq> [] then s else str_text t)"

text \<open>Lines 131 to 140: the loop over \<open>enumerate(result.tasks_output)\<close>, carrying
  \<open>(reader_summary, decision)\<close>.\<close>

fun scan_outputs :: "nat \<Rightarrow> task_output list \<Rightarrow> string option \<times> string option
                       \<Rightarrow> string option \<times> string option" where
  "scan_outputs i [] acc = acc"
| "scan_outputs i (t # ts) (summary, decision) =
     scan_outputs (Suc i) ts
       (if i = 0 then (Some (output_value t), decision)
        else if i = 1 then (summary, Some (lower (output_value t)))
        else (summary, decision))"

text \<open>Lines 128 to 140.\<close>

definition extract_decision :: "crew_output \<Rightarrow> string option \<times> string option" where
  "extract_decision result =
     (case tasks_output result of
        None \<Rightarrow> (None, None)
      | Some outs \<Rightarrow> scan_outputs 0 outs (None, None))"

text \<open>Line 145: \<open>decision and "no reply" in decision\<close>.\<close>

fun no_reply :: "string option \<Rightarrow> bool" where
  "no_reply None = False"
| "no_reply (Some d) = (d \<noteq> [] \<and> contains d ''no reply'')"

text \<open>\<open>not draft_reply or not draft_reply.strip()\<close>.\<close>

fun blank :: "string option \<Rightarrow> bool" where
  "blank None = True"
| "blank (Some s) = (s = [] \<or> strip s = [])"

text \<open>Lines 173 to 194: the fallback chain that picks the draft text.\<close>

definition extract_draft_reply :: "string \<Rightarrow> crew_output \<Rightarrow> string option" where
  "extract_draft_reply streamed_output draft_result =
     (let structured =
            (case tasks_output draft_result of
               Some (first_output # rest) \<Rightarrow>
                 py_or (py_or (output_text first_output) (raw_output first_output))
                       (final_output first_output)
             | _ \<Rightarrow> None);
          stringified =
            (if blank structured
             then (case crew_str draft_result of
                     Some s \<Rightarrow> Some (strip s)
                   | None \<Rightarrow> structured)
             else structured)
      in if blank stringified \<and> streamed_output \<noteq> [] then Some streamed_output
         else stringified)"

definition marker :: string where
  "marker = ''Type of draft_result:''"

text \<open>Lines 197 and 198, on a string.\<close>

definition cleanup :: "string \<Rightarrow> string" where
  "cleanup d = (if contains d marker then strip (split_first d marker) else d)"

text \<open>Lines 196 to 210. \<open>"..." in None\<close> raises \<open>TypeError\<close>.\<close>

definition save_draft :: "gateway \<Rightarrow> message \<Rightarrow> string option \<Rightarrow> world \<Rightarrow> unit outcome \<times> world" where
  "save_draft g email_data draft_reply w =
     (case draft_reply of
        None \<Rightarrow> (Raised TypeError, w)
      | Some d \<Rightarrow>
          let d' = cleanup d
          in if d' \<noteq> [] \<and> strip d' \<noteq> []
             then (case create_draft g (sender email_data) (''Re: '' @ subject email_data) d' w of
                     (Raised e, w1) \<Rightarrow> (Raised e, w1)
                   | (Returned draft, w1) \<Rightarrow> (Returned (), w1))
             else (Returned (), w))"

text \<open>Lines 149 to 210: standard output is pointed at the buffer, the drafting crew runs,
  standard output is set back to the saved stream, and the draft is extracted and saved.
  When the kick-off raises, control leaves at line 167.\<close>

definition draft_stage :: "gateway \<Rightarrow> crews \<Rightarrow> message \<Rightarrow> string \<Rightarrow> string option \<Rightarrow> world
                             \<Rightarrow> unit outcome \<times> world" where
  "draft_stage g c email_data email_text decision w =
     (let sys_stdout = stdout w;
          w1 = w\<lparr>stdout := CaptureBuffer\<rparr>;
          w2 = emit (KickoffDraft email_text decision) w1
      in case draft_kickoff c of
           (printed, Inl e) \<Rightarrow> (Raised e, w2)
         | (printed, Inr draft_result) \<Rightarrow>
             let w3 = w2\<lparr>stdout := sys_stdout\<rparr>;
                 streamed_output = strip printed
             in save_draft g email_data (extract_draft_reply streamed_output draft_result) w3)"

text \<open>Lines 127 to 210, the body of the \<open>try\<close>.\<close>

definition pipeline :: "gateway \<Rightarrow> crews \<Rightarrow> message \<Rightarrow> string \<Rightarrow> world \<Rightarrow> unit outcome \<times> world" where
  "pipeline g c email_data email_text w =
     (let w1 = emit (KickoffDecision (subject email_data) (sender email_data) email_text) w
      in case decision_kickoff c of
           Inl e \<Rightarrow> (Raised e, w1)
         | Inr result \<Rightarrow>
             let decision = snd (extract_decision result)
             in if no_reply decision then (Returned (), w1)
                else draft_stage g c email_data email_text decision w1)"

text \<open>\<open>except Exception as e: print(...)\<close>: every modelled exception is caught.\<close>

fun catch_all :: "unit outcome \<times> world \<Rightarrow> unit outcome \<times> world" where
  "catch_all (Raised e, w) = (Returned (), w)"
| "catch_all (Returned u, w) = (Returned u, w)"

text \<open>\<open>run_email_automation\<close>: lines 93 to 213. The fetch is outside the \<open>try\<close>.\<close>

definition run_email_automation :: "gateway \<Rightarrow> crews \<Rightarrow> world \<Rightarrow> unit outcome \<times> world" where
  "run_email_automation g c w =
     (case get_latest_email g w of
        (Raised e, w1) \<Rightarrow> (Raised e, w1)
      | (Returned None, w1) \<Rightarrow> (Returned (), w1)
      | (Returned (Some email_data), w1) \<Rightarrow>
          let email_text = strip (body email_data)
          in if email_text = [] then (Returned (), w1)
             else catch_all (pipeline g c email_data email_text w1))"

text \<open>What a run leaves behind, read off the world: the calls of \<open>create_draft\<close> with
  their arguments \<open>(to, subject, body)\<close>, in order, the crew kick-offs, and the requests
  that send mail.\<close>

fun create_draft_calls :: "event list \<Rightarrow> (string \<times> string \<times> string) list" where
  "create_draft_calls [] = []"
| "create_draft_calls (CreateDraft to subj bdy # es) = (to, subj, bdy) # create_draft_calls es"
| "create_draft_calls (e # es) = create_draft_calls es"

fun is_send :: "event \<Rightarrow> bool" where
  "is_send (MessagesSend raw) = True"
| "is_send (DraftsSend draft_id) = True"
| "is_send e = False"

fun is_llm_call :: "event \<Rightarrow> bool" where
  "is_llm_call (KickoffDecision s f t) = True"
| "is_llm_call (KickoffDraft t d) = True"
| "is_llm_call e = False"

definition llm_calls :: "event list \<Rightarrow> event list" where
  "llm_calls es = filter is_llm_call es"

section \<open>Notions of the specification\<close>

text \<open>  Containment in any casing: some run of the text equals the pattern once both are
  lowered character by character.\<close>

fun ci_startswith :: "string \<Rightarrow> string \<Rightarrow> bool" where
  "ci_startswith s [] = True"
| "ci_startswith [] (p # ps) = False"
| "ci_startswith (c # cs) (p # ps) = (lower_char c = lower_char p \<and> ci_startswith cs ps)"

fun ci_contains :: "string \<Rightarrow> string \<Rightarrow> bool" where
  "ci_contains [] sub = (sub = [])"
| "ci_contains (c # cs) sub = (ci_startswith (c # cs) sub \<or> ci_contains cs sub)"

text \<open>  \<open>s.find(sub)\<close>, with \<open>None\<close> for -1: the index of the first occurrence. Truncating
  \<open>s\<close> at the first occurrence of \<open>sep\<close> keeps the characters before that index.\<close>

fun str_find :: "string \<Rightarrow> string \<Rightarrow> nat option" where
  "str_find [] sub = (if sub = [] then Some 0 else None)"
| "str_find (c # cs) sub =
     (if startswith (c # cs) sub then Some 0 else map_option Suc (str_find cs sub))"

definition truncate_at :: "string \<Rightarrow> string \<Rightarrow> string" where
  "truncate_at s sep = (case str_find s sep of None \<Rightarrow> s | Some i \<Rightarrow> take i s)"

text \<open>  The text/plain segments of a list of parts in depth-first order, concatenated; parts
  of any other type add nothing.\<close>

fun plain_of_part :: "(string \<Rightarrow> string option) \<Rightarrow> part \<Rightarrow> string"
  and plain_of_parts :: "(string \<Rightarrow> string option) \<Rightarrow> part list \<Rightarrow> string"
  and plain_of_sub :: "(string \<Rightarrow> string option) \<Rightarrow> part list option \<Rightarrow> string"
where
  "plain_of_part dec (Part hs mt dat ps) =
     (if mt = Some ''text/plain'' \<and> truthy dat
      then (case dec (the dat) of None \<Rightarrow> [] | Some decoded \<Rightarrow> decoded)
      else []) @ plain_of_sub dec ps"
| "plain_of_parts dec [] = []"
| "plain_of_parts dec (p # ps) = plain_of_part dec p @ plain_of_parts dec ps"
| "plain_of_sub dec None = []"
| "plain_of_sub dec (Some ps) = plain_of_parts dec ps"

text \<open>The drafting kick-offs among the calls of a run.\<close>

fun is_draft_kickoff :: "event \<Rightarrow> bool" where
  "is_draft_kickoff (KickoffDraft t d) = True"
| "is_draft_kickoff e = False"

definition drafting_calls :: "event list \<Rightarrow> event list" where
  "drafting_calls es = filter is_draft_kickoff es"

section \<open>A sample mailbox and sample crews\<close>

text \<open>  A decoder table with the base64url encodings of \<open>Hello\<close> and of \<open><p>Hi</p>\<close>, the
  text that BeautifulSoup extracts from the latter, and a mailbox: \<open>m1\<close> is a single
  text/plain part, \<open>m2\<close> a single text/html part, \<open>m3\<close> a multipart message whose
  text/plain part is empty, \<open>m4\<close> a multipart message with both alternatives, \<open>gone\<close>
  answers 404 and every other identifier times out.\<close>

definition demo_decode :: "string \<Rightarrow> string option" where
  "demo_decode d = map_of [(''SGVsbG8='', ''Hello''), (''PHA-SGk8L3A-'', ''<p>Hi</p>'')] d"

definition demo_get_text :: "string \<Rightarrow> string" where
  "demo_get_text html = (if html = ''<p>Hi</p>'' then ''Hi'' else html)"

definition demo_headers :: "(string \<times> string) list" where
  "demo_headers = [(''From'', ''ann@example.org''), (''Subject'', ''Lunch'')]"

definition m3_parts :: "part list" where
  "m3_parts = [Part [] (Some ''text/plain'') None None,
               Part [] (Some ''text/html'') (Some ''PHA-SGk8L3A-'') None]"

definition m4_parts :: "part list" where
  "m4_parts = [Part [] (Some ''text/plain'') (Some ''SGVsbG8='') None,
               Part [] (Some ''text/html'') (Some ''PHA-SGk8L3A-'') None]"

definition demo_mailbox :: "string \<Rightarrow> exn + part option" where
  "demo_mailbox msg_id =
     (if msg_id = ''m1''
      then Inr (Some (Part demo_headers (Some ''text/plain'') (Some ''SGVsbG8='') None))
      else if msg_id = ''m2''
      then Inr (Some (Part demo_headers (Some ''text/html'') (Some ''PHA-SGk8L3A-'') None))
      else if msg_id = ''m3''
      then Inr (Some (Part demo_headers (Some ''multipart/alternative'') None
             (Some m3_parts)))
      else if msg_id = ''m4''
      then Inr (Some (Part demo_headers (Some ''multipart/alternative'') None
             (Some m4_parts)))
      else if msg_id = ''gone'' then Inl HttpError
      else Inl (OtherException ''timed out''))"

text \<open>The message builder at the messages used below, as the \<open>email\<close> package of
  Python 3.11 encodes them; a subject with an embedded header line is refused.\<close>

definition mime_prefix :: string where
  "mime_prefix = ''Q29udGVudC1UeXBlOiB0ZXh0L3BsYWluOyBjaGFyc2V0PSJ1cy1hc2NpaSIKTUlNRS1WZXJzaW9uOiAxLjAKQ29udGVudC1UcmFuc2Zlci1FbmNvZGluZzogN2JpdAp0bzogYW5uQGV4YW1wbGUub3JnCnN1YmplY3Q6IFJlOiBMdW5jaAoK''"

definition injected_subject :: string where
  "injected_subject = ''Re: Lunch'' @ [CHR 0x0A] @ ''Bcc: eve@example.org''"

definition demo_mime :: "string \<Rightarrow> string \<Rightarrow> string \<Rightarrow> exn + string" where
  "demo_mime to subj bdy =
     (if to = ''ann@example.org'' \<and> subj = ''Re: Lunch'' \<and> bdy = ''Sure.''
      then Inr (mime_prefix @ ''U3VyZS4='')
      else if to = ''ann@example.org'' \<and> subj = ''Re: Lunch'' \<and> bdy = ''Sure, noon works.''
      then Inr (mime_prefix @ ''U3VyZSwgbm9vbiB3b3Jrcy4='')
      else if to = ''ann@example.org'' \<and> subj = ''Re: Lunch'' \<and> bdy = ''Hello''
      then Inr (mime_prefix @ ''SGVsbG8='')
      else if subj = injected_subject then Inl HeaderParseError
      else Inl (OtherException ''not in the table''))"

definition demo_draft :: "(string \<times> json) list" where
  "demo_draft = [(''id'', JString ''r-1''), (''message'', JObject [(''id'', JString ''m-9'')])]"

definition demo_gateway :: "string list \<Rightarrow> gateway" where
  "demo_gateway inbox =
     \<lparr>messages_list = (\<lambda>n. Inr (if inbox = [] then None else Some (take n inbox))),
      messages_get = demo_mailbox,
      drafts_create = (\<lambda>raw_message. Inr demo_draft),
      mime_message = demo_mime,
      b64decode = demo_decode,
      get_text = demo_get_text\<rparr>"

text \<open>  Crew results as the framework delivers them (the text in \<open>raw_output\<close>), a result
  without \<open>tasks_output\<close>, a result whose only text is one space and whose \<open>str()\<close>
  raises, and a draft that carries the debug marker.\<close>

definition raw_task :: "string \<Rightarrow> task_output" where
  "raw_task s = \<lparr>output_text = None, raw_output = Some s, final_output = None, str_text = s\<rparr>"

definition demo_decision :: "string \<Rightarrow> crew_output" where
  "demo_decision label =
     \<lparr>tasks_output = Some [raw_task ''Ann asks about lunch.'', raw_task label],
      crew_str = Some label\<rparr>"

definition demo_crews :: "string \<Rightarrow> string \<times> (exn + crew_output) \<Rightarrow> crews" where
  "demo_crews label drafting = \<lparr>decision_kickoff = Inr (demo_decision label), draft_kickoff = drafting\<rparr>"

definition drafted :: "string \<Rightarrow> string \<times> (exn + crew_output)" where
  "drafted s = ([], Inr \<lparr>tasks_output = Some [raw_task s], crew_str = Some s\<rparr>)"

definition opaque_result :: crew_output where
  "opaque_result = \<lparr>tasks_output = None, crew_str = Some ''follow-up''\<rparr>"

definition unprintable_blank :: crew_output where
  "unprintable_blank =
     \<lparr>tasks_output = Some [\<lparr>output_text = Some '' '', raw_output = None,
                              final_output = None, str_text = '' ''\<rparr>],
      crew_str = None\<rparr>"

definition marked_draft :: string where
  "marked_draft = ''Hello Type of draft_result: str''"

text \<open>The world before a run, the message read from \<open>m1\<close> and the world after reading it.\<close>

definition w0 :: world where
  "w0 = \<lparr>stdout = OriginalStdout, calls = []\<rparr>"

definition demo_email :: message where
  "demo_email = \<lparr>sender = ''ann@example.org'', subject = ''Lunch'', body = ''Hello'', body_html = []\<rparr>"

definition w_fetched :: world where
  "w_fetched = \<lparr>stdout = OriginalStdout, calls = [MessagesList 1, MessagesGet ''m1'']\<rparr>"

section \<open>Facts about the string helpers\<close>

lemma startswith_iff_take: "startswith s p \<longleftrightarrow> take (length p) s = p"
  by (induction s p rule: startswith.induct) auto

lemma startswith_append: "startswith s (p @ q) \<Longrightarrow> startswith s p"
  by (induction s p rule: startswith.induct) auto

lemma contains_append: "contains s (p @ q) \<Longrightarrow> contains s p"
  by (induction s) (auto dest: startswith_append)

lemma contains_nonempty: "contains s p \<Longrightarrow> p \<noteq> [] \<Longrightarrow> s \<noteq> []"
  by (cases s) auto

lemma ci_startswith_lower: "ci_startswith s p \<Longrightarrow> startswith (lower s) (lower p)"
  by (induction s p rule: ci_startswith.induct) (auto simp: lower_def)

lemma ci_contains_lower: "ci_contains s p \<Longrightarrow> contains (lower s) (lower p)"
proof (induction s)
  case Nil
  then show ?case by (simp add: lower_def)
next
  case (Cons c cs)
  then show ?case using ci_startswith_lower [of "c # cs" p] by (auto simp: lower_def)
qed

lemma lower_sentinel: "lower ''No Reply Needed'' = ''no reply'' @ '' needed''"
  by code_simp

lemma sentinel_no_reply:
  assumes "ci_contains v ''No Reply Needed''"
  shows "no_reply (Some (lower v))"
proof -
  have "contains (lower v) (lower ''No Reply Needed'')"
    using assms by (rule ci_contains_lower)
  then have c: "contains (lower v) ''no reply''"
    unfolding lower_sentinel by (rule contains_append)
  then have "lower v \<noteq> []" by (rule contains_nonempty) simp
  with c show ?thesis by simp
qed

text \<open>\<open>str_find\<close> yields the first occurrence, it succeeds exactly when \<open>in\<close> does, and
  \<open>split(sep)[0]\<close> is the truncation at it.\<close>

lemma find_first:
  "str_find s sub = Some i \<Longrightarrow> startswith (drop i s) sub \<and> (\<forall>j<i. \<not> startswith (drop j s) sub)"
proof (induction s arbitrary: i)
  case Nil
  then show ?case by (auto split: if_splits)
next
  case (Cons c cs)
  show ?case
  proof (cases "startswith (c # cs) sub")
    case True
    with Cons.prems show ?thesis by simp
  next
    case False
    with Cons.prems obtain k where k: "str_find cs sub = Some k" "i = Suc k" by auto
    from Cons.IH [OF k(1)] False k(2) show ?thesis
      by (auto simp: less_Suc_eq_0_disj)
  qed
qed

lemma find_contains: "contains s sub \<longleftrightarrow> str_find s sub \<noteq> None"
  by (induction s) auto

lemma split_first_truncate: "sub \<noteq> [] \<Longrightarrow> split_first s sub = truncate_at s sub"
  by (induction s) (auto simp: truncate_at_def split: option.splits)

lemma marker_nonempty: "marker \<noteq> []"
  by (simp add: marker_def)

lemma strip_Nil: "strip [] = []"
  by (simp add: strip_def)

lemma dropWhile_last:
  "xs \<noteq> [] \<Longrightarrow> \<not> P (last xs) \<Longrightarrow> dropWhile P xs \<noteq> [] \<and> last (dropWhile P xs) = last xs"
  by (induction xs) (auto split: if_splits)

lemma dropWhile_strip: "dropWhile isspace (strip s) = strip s"
proof (cases "dropWhile isspace s")
  case Nil
  show ?thesis unfolding strip_def Nil by simp
next
  case (Cons a t)
  then have na: "\<not> isspace a" using hd_dropWhile [of isspace s] by auto
  let ?r = "rev (a # t)"
  have "?r \<noteq> []" "\<not> isspace (last ?r)" using na by auto
  then have d: "dropWhile isspace ?r \<noteq> []" "last (dropWhile isspace ?r) = a"
    using dropWhile_last [of ?r isspace] by auto
  then have "hd (rev (dropWhile isspace ?r)) = a" by (simp add: hd_rev)
  moreover have "rev (dropWhile isspace ?r) \<noteq> []" using d by simp
  ultimately have "dropWhile isspace (rev (dropWhile isspace ?r)) = rev (dropWhile isspace ?r)"
    using na by (cases "rev (dropWhile isspace ?r)") auto
  then show ?thesis using Cons by (simp add: strip_def)
qed

lemma strip_strip: "strip (strip s) = strip s"
proof -
  have "strip (strip s) = rev (dropWhile isspace (rev (strip s)))"
    unfolding strip_def [of "strip s"] dropWhile_strip ..
  also have "\<dots> = strip s" by (simp add: strip_def dropWhile_idem)
  finally show ?thesis .
qed

section \<open>Facts about the gateway and the orchestrator\<close>

lemma extract_plain:
  "extract_part dec p acc = Some acc' \<Longrightarrow> fst acc' = fst acc @ plain_of_part dec p"
  "extract_parts dec ps acc = Some acc' \<Longrightarrow> fst acc' = fst acc @ plain_of_parts dec ps"
  "extract_sub dec sub acc = Some acc' \<Longrightarrow> fst acc' = fst acc @ plain_of_sub dec sub"
proof (induction dec p acc and dec ps acc and dec sub acc arbitrary: acc' and acc' and acc'
       rule: extract_part_extract_parts_extract_sub.induct)
  case (1 dec hs mt dat ps b h)
  then show ?case by (auto split: if_splits option.splits)
next
  case (2 dec acc)
  then show ?case by simp
next
  case (3 dec p ps acc)
  then show ?case by (auto split: option.splits)
next
  case (4 dec acc)
  then show ?case by simp
next
  case (5 dec ps acc)
  then show ?case by simp
qed

text \<open>The multipart branch does fall back to the text extracted from the HTML parts.\<close>

lemma multipart_html_fallback:
  assumes "parts payload = Some ps"
    and "extract_parts (b64decode g) ps ([], []) = Some ([], h)"
    and "h \<noteq> []"
  shows "decode_payload g (Some payload) =
           Returned \<lparr>sender = header (headers payload) ''From'' ''Unknown'',
                      subject = header (headers payload) ''Subject'' ''No Subject'',
                      body = strip (get_text g h), body_html = strip h\<rparr>"
  using assms by (simp add: decode_payload_def Let_def)

lemma scan_outputs_decision:
  "snd (scan_outputs i ts (s, d)) =
     (if i \<le> 1 \<and> 1 - i < length ts then Some (lower (output_value (ts ! (1 - i)))) else d)"
proof (induction ts arbitrary: i s d)
  case Nil
  then show ?case by simp
next
  case (Cons t ts)
  show ?case
  proof (cases "i = 0")
    case True
    then show ?thesis using Cons [of "Suc 0" "Some (output_value t)" d] by (cases ts) auto
  next
    case False
    then show ?thesis using Cons [of "Suc i" s "if i = 1 then Some (lower (output_value t)) else d"]
      by (cases "i = 1") auto
  qed
qed

lemma create_draft_calls_append: "create_draft_calls (xs @ ys) = create_draft_calls xs @ create_draft_calls ys"
  by (induction xs rule: create_draft_calls.induct) auto

lemma snd_catch_all: "snd (catch_all x) = snd x"
  by (cases x rule: catch_all.cases) auto

lemma read_message_world: "snd (read_message g i w) = emit (MessagesGet i) w"
  by (simp add: read_message_def Let_def split: sum.splits exn.splits outcome.splits)

lemma list_messages_world: "snd (list_messages g n w) = emit (MessagesList n) w"
  by (simp add: list_messages_def Let_def split: sum.splits option.splits)

lemma get_latest_email_world:
  assumes "get_latest_email g w = (r, w1)"
  shows "stdout w1 = stdout w"
    and "create_draft_calls (calls w1) = create_draft_calls (calls w)"
    and "drafting_calls (calls w1) = drafting_calls (calls w)"
    and "llm_calls (calls w1) = llm_calls (calls w)"
proof -
  obtain r0 where l: "list_messages g 1 w = (r0, emit (MessagesList 1) w)"
    using list_messages_world [of g 1 w] by (cases "list_messages g 1 w") auto
  have "w1 = emit (MessagesList 1) w \<or>
        (\<exists>mid. w1 = emit (MessagesGet mid) (emit (MessagesList 1) w))"
  proof (cases r0)
    case (Raised e)
    with l assms show ?thesis by (simp add: get_latest_email_def)
  next
    case (Returned ms)
    show ?thesis
    proof (cases ms)
      case Nil
      with l assms Returned show ?thesis by (simp add: get_latest_email_def)
    next
      case (Cons mid rest)
      with l assms Returned have "read_message g mid (emit (MessagesList 1) w) = (r, w1)"
        by (simp add: get_latest_email_def)
      then have "w1 = emit (MessagesGet mid) (emit (MessagesList 1) w)"
        using read_message_world [of g mid "emit (MessagesList 1) w"] by simp
      then show ?thesis by blast
    qed
  qed
  then show "stdout w1 = stdout w"
    and "create_draft_calls (calls w1) = create_draft_calls (calls w)"
    and "drafting_calls (calls w1) = drafting_calls (calls w)"
    and "llm_calls (calls w1) = llm_calls (calls w)"
    by (auto simp: emit_def create_draft_calls_append drafting_calls_def llm_calls_def)
qed

lemma create_draft_effect:
  "create_draft_calls (calls (snd (create_draft g to subj bdy w))) =
     create_draft_calls (calls w) @ [(to, subj, bdy)]"
  "drafting_calls (calls (snd (create_draft g to subj bdy w))) = drafting_calls (calls w)"
  by (simp_all add: create_draft_def Let_def emit_def create_draft_calls_append
        drafting_calls_def split: sum.splits option.splits)

lemma draft_stage_returns:
  assumes "draft_kickoff c = (printed, Inr draft_result)"
  shows "draft_stage g c email_data email_text decision w =
           save_draft g email_data (extract_draft_reply (strip printed) draft_result)
             (emit (KickoffDraft email_text decision) w)"
  using assms by (simp add: draft_stage_def emit_def Let_def)

lemma run_reaches_draft:
  assumes "get_latest_email g w = (Returned (Some email_data), w1)"
    and "strip (body email_data) \<noteq> []"
    and "decision_kickoff c = Inr result"
    and "\<not> no_reply (snd (extract_decision result))"
  shows "run_email_automation g c w =
           catch_all (draft_stage g c email_data (strip (body email_data))
             (snd (extract_decision result))
             (emit (KickoffDecision (subject email_data) (sender email_data)
                      (strip (body email_data))) w1))"
  using assms by (simp add: run_email_automation_def pipeline_def Let_def)

lemma save_draft_world:
  "snd (save_draft g email_data (Some d) w) =
     (if strip (cleanup d) = [] then w
      else snd (create_draft g (sender email_data) (''Re: '' @ subject email_data)
                  (cleanup d) w))"
proof (cases "strip (cleanup d) = []")
  case True
  then show ?thesis by (simp add: save_draft_def Let_def)
next
  case False
  then have ne: "cleanup d \<noteq> []" using strip_Nil by auto
  obtain r w' where
    "create_draft g (sender email_data) (''Re: '' @ subject email_data) (cleanup d) w = (r, w')"
    by (cases "create_draft g (sender email_data) (''Re: '' @ subject email_data) (cleanup d) w")
  with False ne show ?thesis by (cases r) (simp_all add: save_draft_def Let_def)
qed

lemma save_draft_effect:
  "create_draft_calls (calls (snd (save_draft g email_data (Some d) w))) =
     create_draft_calls (calls w) @
       (if strip (cleanup d) = [] then []
        else [(sender email_data, ''Re: '' @ subject email_data, cleanup d)])"
  "drafting_calls (calls (snd (save_draft g email_data (Some d) w))) = drafting_calls (calls w)"
  by (simp_all add: save_draft_world create_draft_effect)

lemma run_draft_world:
  assumes "get_latest_email g w = (Returned (Some email_data), w1)"
    and "strip (body email_data) \<noteq> []"
    and "decision_kickoff c = Inr result"
    and "\<not> no_reply (snd (extract_decision result))"
    and "draft_kickoff c = (printed, Inr draft_result)"
    and "extract_draft_reply (strip printed) draft_result = Some d"
  shows "create_draft_calls (calls (snd (run_email_automation g c w))) =
           create_draft_calls (calls w) @
             (if strip (cleanup d) = [] then []
              else [(sender email_data, ''Re: '' @ subject email_data, cleanup d)])"
proof -
  have "snd (run_email_automation g c w) =
          snd (save_draft g email_data (Some d)
                 (emit (KickoffDraft (strip (body email_data)) (snd (extract_decision result)))
                    (emit (KickoffDecision (subject email_data) (sender email_data)
                             (strip (body email_data))) w1)))"
    unfolding run_reaches_draft [OF assms(1-4)] snd_catch_all
      draft_stage_returns [OF assms(5)] assms(6) ..
  then show ?thesis
    using get_latest_email_world(2) [OF assms(1)]
    by (simp add: save_draft_effect emit_def create_draft_calls_append)
qed

lemma draft_stage_drafting_calls:
  "drafting_calls (calls (snd (draft_stage g c email_data email_text decision w))) =
     drafting_calls (calls w) @ [KickoffDraft email_text decision]"
proof (cases "draft_kickoff c")
  case (Pair printed r)
  show ?thesis
  proof (cases r)
    case (Inl e)
    with Pair show ?thesis
      by (simp add: draft_stage_def Let_def emit_def drafting_calls_def)
  next
    case (Inr draft_result)
    show ?thesis
    proof (cases "extract_draft_reply (strip printed) draft_result")
      case None
      then show ?thesis
        unfolding draft_stage_returns [OF Pair [unfolded Inr]]
        by (simp add: save_draft_def emit_def drafting_calls_def)
    next
      case (Some d)
      then show ?thesis
        unfolding draft_stage_returns [OF Pair [unfolded Inr]]
        by (simp add: save_draft_effect) (simp add: emit_def drafting_calls_def)
    qed
  qed
qed

lemma demo_fetch: "get_latest_email (demo_gateway [''m1'']) w0 = (Returned (Some demo_email), w_fetched)"
  by code_simp

lemma demo_body: "strip (body demo_email) \<noteq> []"
  by code_simp

section \<open>The properties of the specification\<close>

subsection \<open>C1: the no-reply sentinel\<close>

text \<open>  C1. When the classification text (the value taken from the second task output, before
  it is lowered) contains \<open>No Reply Needed\<close> in any casing, a run does not call \<open>create_draft\<close> and
  never starts the drafting crew, whatever the mailbox and the crews do otherwise.\<close>

theorem no_reply_sentinel_skips_draft:
  assumes "decision_kickoff c = Inr result"
    and "tasks_output result = Some outs"
    and "1 < length outs"
    and "ci_contains (output_value (outs ! 1)) ''No Reply Needed''"
  shows "create_draft_calls (calls (snd (run_email_automation g c w))) = create_draft_calls (calls w) \<and>
         drafting_calls (calls (snd (run_email_automation g c w))) = drafting_calls (calls w)"
proof -
  obtain r w1 where f: "get_latest_email g w = (r, w1)"
    by (cases "get_latest_email g w") auto
  note same = get_latest_email_world(2,3) [OF f]
  have dec: "snd (extract_decision result) = Some (lower (output_value (outs ! 1)))"
    using assms(2,3) by (simp add: extract_decision_def scan_outputs_decision)
  have nr: "no_reply (snd (extract_decision result))"
    unfolding dec using assms(4) by (rule sentinel_no_reply)
  have "snd (run_email_automation g c w) = w1 \<or>
        (\<exists>e. snd (run_email_automation g c w) = emit e w1 \<and> \<not> is_draft_kickoff e
              \<and> create_draft_calls [e] = [])"
  proof (cases r)
    case (Raised e)
    with f show ?thesis by (simp add: run_email_automation_def)
  next
    case (Returned m)
    show ?thesis
    proof (cases m)
      case None
      with f Returned show ?thesis by (simp add: run_email_automation_def)
    next
      case (Some email_data)
      show ?thesis
      proof (cases "strip (body email_data) = []")
        case True
        with f Returned Some show ?thesis by (simp add: run_email_automation_def)
      next
        case False
        have "snd (run_email_automation g c w) =
                emit (KickoffDecision (subject email_data) (sender email_data)
                        (strip (body email_data))) w1"
          using f Returned Some False assms(1) nr
          by (simp add: run_email_automation_def pipeline_def Let_def)
        then show ?thesis by auto
      qed
    qed
  qed
  then show ?thesis
    using same by (auto simp: emit_def create_draft_calls_append drafting_calls_def)
qed

theorem no_reply_sentinel_skips_draft_witness:
  "ci_contains (output_value (raw_task ''NO REPLY NEEDED.'')) ''No Reply Needed'' \<and>
   create_draft_calls (calls (snd (run_email_automation (demo_gateway [''m1''])
       (demo_crews ''NO REPLY NEEDED.'' (drafted ''Sure, noon works.'')) w0))) = [] \<and>
   drafting_calls (calls (snd (run_email_automation (demo_gateway [''m1''])
       (demo_crews ''NO REPLY NEEDED.'' (drafted ''Sure, noon works.'')) w0))) = []"
proof -
  let ?outs = "[raw_task ''Ann asks about lunch.'', raw_task ''NO REPLY NEEDED.'']"
  let ?c = "demo_crews ''NO REPLY NEEDED.'' (drafted ''Sure, noon works.'')"
  have h1: "decision_kickoff ?c = Inr (demo_decision ''NO REPLY NEEDED.'')"
    by (simp add: demo_crews_def)
  have h2: "tasks_output (demo_decision ''NO REPLY NEEDED.'') = Some ?outs"
    by (simp add: demo_decision_def)
  have h3: "1 < length ?outs" by simp
  have h4: "ci_contains (output_value (?outs ! 1)) ''No Reply Needed''" by code_simp
  have e: "create_draft_calls (calls w0) = []" "drafting_calls (calls w0) = []"
    by (simp_all add: w0_def drafting_calls_def)
  from no_reply_sentinel_skips_draft [OF h1 h2 h3 h4, of "demo_gateway [''m1'']" w0] h4
  show ?thesis unfolding e by simp
qed

subsection \<open>C2: a message that is only HTML\<close>

text \<open>  C2. A payload whose only text is an HTML part should be read with the tag-stripped text
  as body. For the single-part message \<open>m2\<close> the branch without \<open>parts\<close> stores the
  decoded data as body without looking at the type: the body is the markup itself and
  \<open>body_html\<close> stays empty, although the extracted text would be \<open>Hi\<close>.\<close>

theorem single_part_html_body_is_raw:
  "messages_get (demo_gateway []) ''m2'' =
     Inr (Some (Part demo_headers (Some ''text/html'') (Some ''PHA-SGk8L3A-'') None)) \<and>
   b64decode (demo_gateway []) ''PHA-SGk8L3A-'' = Some ''<p>Hi</p>'' \<and>
   get_text (demo_gateway []) ''<p>Hi</p>'' = ''Hi'' \<and>
   fst (read_message (demo_gateway []) ''m2'' w0) =
     Returned (Some \<lparr>sender = ''ann@example.org'', subject = ''Lunch'',
                      body = ''<p>Hi</p>'', body_html = []\<rparr>)"
  by code_simp

subsection \<open>C3: recipient and subject of the draft\<close>

text \<open>  C3, as stated, fails on a draft text that is not empty but blank: the text is one
  space, no other source of text is available, and \<open>create_draft\<close> is not called.\<close>

theorem blank_draft_not_saved:
  "extract_draft_reply [] unprintable_blank = Some '' '' \<and> cleanup '' '' = '' '' \<and>
   create_draft_calls (calls (snd (run_email_automation (demo_gateway [''m1''])
       (demo_crews ''Follow-up'' ([], Inr unprintable_blank)) w0))) = []"
  by code_simp

text \<open>  C3, amended. When the draft text left after extraction and cleanup is not blank,
  \<open>create_draft\<close> is called exactly once in the run, with the sender of the message as
  recipient, \<open>Re:\<close> and a space before its subject, and that text as body.\<close>

theorem nonblank_draft_saved_once:
  assumes "get_latest_email g w = (Returned (Some email_data), w1)"
    and "strip (body email_data) \<noteq> []"
    and "decision_kickoff c = Inr result"
    and "\<not> no_reply (snd (extract_decision result))"
    and "draft_kickoff c = (printed, Inr draft_result)"
    and "extract_draft_reply (strip printed) draft_result = Some d"
    and "strip (cleanup d) \<noteq> []"
  shows "create_draft_calls (calls (snd (run_email_automation g c w))) =
           create_draft_calls (calls w) @
             [(sender email_data, ''Re: '' @ subject email_data, cleanup d)]"
  using run_draft_world [OF assms(1-6)] assms(7) by simp

theorem nonblank_draft_saved_once_witness:
  "strip (cleanup ''Sure, noon works.'') \<noteq> [] \<and>
   create_draft_calls (calls (snd (run_email_automation (demo_gateway [''m1''])
       (demo_crews ''Follow-up'' (drafted ''Sure, noon works.'')) w0))) =
     [(''ann@example.org'', ''Re: Lunch'', ''Sure, noon works.'')]"
proof -
  let ?c = "demo_crews ''Follow-up'' (drafted ''Sure, noon works.'')"
  let ?res = "\<lparr>tasks_output = Some [raw_task ''Sure, noon works.''],
               crew_str = Some ''Sure, noon works.''\<rparr>"
  have h3: "decision_kickoff ?c = Inr (demo_decision ''Follow-up'')"
    by (simp add: demo_crews_def)
  have h4: "\<not> no_reply (snd (extract_decision (demo_decision ''Follow-up'')))" by code_simp
  have h5: "draft_kickoff ?c = ([], Inr ?res)" by (simp add: demo_crews_def drafted_def)
  have h6: "extract_draft_reply (strip []) ?res = Some ''Sure, noon works.''" by code_simp
  have h7: "strip (cleanup ''Sure, noon works.'') \<noteq> []" by code_simp
  have e: "create_draft_calls (calls w0) = []" "sender demo_email = ''ann@example.org''"
    "''Re: '' @ subject demo_email = ''Re: Lunch''"
    "cleanup ''Sure, noon works.'' = ''Sure, noon works.''"
    by code_simp+
  from nonblank_draft_saved_once [OF demo_fetch demo_body h3 h4 h5 h6 h7] h7
  show ?thesis unfolding e by simp
qed

subsection \<open>C4: the debug marker\<close>

text \<open>  C4, as stated, fails when whitespace precedes the marker: the truncation of the sample
  draft ends with a space, the body handed to \<open>create_draft\<close> does not.\<close>

theorem marker_truncation_is_stripped:
  "contains marked_draft marker \<and> truncate_at marked_draft marker = ''Hello '' \<and>
   create_draft_calls (calls (snd (run_email_automation (demo_gateway [''m1''])
       (demo_crews ''Follow-up'' (drafted marked_draft)) w0))) =
     [(''ann@example.org'', ''Re: Lunch'', ''Hello'')]"
  by code_simp

text \<open>  C4, amended. A draft text that contains the marker is truncated at its first occurrence
  and then stripped of leading and trailing whitespace; a draft text without the marker
  is passed on unchanged. In both cases \<open>create_draft\<close> is called only when the result is not
  blank.\<close>

theorem draft_body_cleanup:
  assumes "get_latest_email g w = (Returned (Some email_data), w1)"
    and "strip (body email_data) \<noteq> []"
    and "decision_kickoff c = Inr result"
    and "\<not> no_reply (snd (extract_decision result))"
    and "draft_kickoff c = (printed, Inr draft_result)"
    and "extract_draft_reply (strip printed) draft_result = Some d"
  shows "create_draft_calls (calls (snd (run_email_automation g c w))) =
           create_draft_calls (calls w) @
             (if contains d marker
              then (if strip (truncate_at d marker) = [] then []
                    else [(sender email_data, ''Re: '' @ subject email_data,
                           strip (truncate_at d marker))])
              else (if strip d = [] then []
                    else [(sender email_data, ''Re: '' @ subject email_data, d)]))"
proof -
  have "cleanup d = (if contains d marker then strip (truncate_at d marker) else d)"
    by (simp add: cleanup_def split_first_truncate [OF marker_nonempty])
  then show ?thesis
    using run_draft_world [OF assms] by (simp add: strip_strip)
qed

theorem draft_body_cleanup_witness:
  "contains marked_draft marker \<and> strip (truncate_at marked_draft marker) = ''Hello'' \<and>
   create_draft_calls (calls (snd (run_email_automation (demo_gateway [''m1''])
       (demo_crews ''Follow-up'' (drafted marked_draft)) w0))) =
     [(''ann@example.org'', ''Re: Lunch'', ''Hello'')]"
proof -
  let ?c = "demo_crews ''Follow-up'' (drafted marked_draft)"
  let ?res = "\<lparr>tasks_output = Some [raw_task marked_draft], crew_str = Some marked_draft\<rparr>"
  have h3: "decision_kickoff ?c = Inr (demo_decision ''Follow-up'')"
    by (simp add: demo_crews_def)
  have h4: "\<not> no_reply (snd (extract_decision (demo_decision ''Follow-up'')))" by code_simp
  have h5: "draft_kickoff ?c = ([], Inr ?res)" by (simp add: demo_crews_def drafted_def)
  have h6: "extract_draft_reply (strip []) ?res = Some marked_draft" by code_simp
  have e: "create_draft_calls (calls w0) = []" "sender demo_email = ''ann@example.org''"
    "''Re: '' @ subject demo_email = ''Re: Lunch''"
    "strip (truncate_at marked_draft marker) = ''Hello''"
    by code_simp+
  have m: "contains marked_draft marker" by code_simp
  from draft_body_cleanup [OF demo_fetch demo_body h3 h4 h5 h6] m
  show ?thesis unfolding e by simp
qed

subsection \<open>C5: plain text before HTML\<close>

text \<open>  C5, as stated, fails when the text/plain parts carry no text: \<open>m3\<close> has a text/plain
  part and a text/html part, and its body comes from the HTML part.\<close>

theorem empty_plain_falls_back_to_html:
  "messages_get (demo_gateway []) ''m3'' =
     Inr (Some (Part demo_headers (Some ''multipart/alternative'') None (Some m3_parts))) \<and>
   plain_of_parts (b64decode (demo_gateway [])) m3_parts = [] \<and>
   fst (read_message (demo_gateway []) ''m3'' w0) =
     Returned (Some \<lparr>sender = ''ann@example.org'', subject = ''Lunch'',
                      body = ''Hi'', body_html = ''<p>Hi</p>''\<rparr>)"
  by code_simp

text \<open>  C5, amended. When a payload with \<open>parts\<close> decodes and the concatenation of its
  text/plain segments, depth-first, is not empty, the body is that concatenation with
  surrounding whitespace stripped; the other parts add nothing to it.\<close>

theorem plain_text_preferred:
  assumes "messages_get g msg_id = Inr (Some payload)"
    and "parts payload = Some ps"
    and "extract_parts (b64decode g) ps ([], []) = Some (b, h)"
    and "plain_of_parts (b64decode g) ps \<noteq> []"
  shows "fst (read_message g msg_id w) =
           Returned (Some \<lparr>sender = header (headers payload) ''From'' ''Unknown'',
                            subject = header (headers payload) ''Subject'' ''No Subject'',
                            body = strip (plain_of_parts (b64decode g) ps),
                            body_html = strip h\<rparr>)"
proof -
  have b: "b = plain_of_parts (b64decode g) ps"
    using extract_plain(2) [OF assms(3)] by simp
  with assms(4) have "b \<noteq> []" by simp
  then have "decode_payload g (Some payload) =
      Returned \<lparr>sender = header (headers payload) ''From'' ''Unknown'',
                 subject = header (headers payload) ''Subject'' ''No Subject'',
                 body = strip b, body_html = strip h\<rparr>"
    using assms(2,3) by (simp add: decode_payload_def Let_def)
  then show ?thesis using assms(1) b by (simp add: read_message_def Let_def)
qed

theorem plain_text_preferred_witness:
  "plain_of_parts (b64decode (demo_gateway [])) m4_parts = ''Hello'' \<and>
   fst (read_message (demo_gateway []) ''m4'' w0) =
     Returned (Some \<lparr>sender = ''ann@example.org'', subject = ''Lunch'',
                      body = ''Hello'', body_html = ''<p>Hi</p>''\<rparr>)"
proof -
  let ?g = "demo_gateway []"
  let ?p = "Part demo_headers (Some ''multipart/alternative'') None (Some m4_parts)"
  have h1: "messages_get ?g ''m4'' = Inr (Some ?p)" by code_simp
  have h2: "parts ?p = Some m4_parts" by simp
  have h3: "extract_parts (b64decode ?g) m4_parts ([], []) = Some (''Hello'', ''<p>Hi</p>'')"
    by code_simp
  have p: "plain_of_parts (b64decode ?g) m4_parts = ''Hello''" by code_simp
  have h4: "plain_of_parts (b64decode ?g) m4_parts \<noteq> []" unfolding p by simp
  have e: "header (headers ?p) ''From'' ''Unknown'' = ''ann@example.org''"
    "header (headers ?p) ''Subject'' ''No Subject'' = ''Lunch''"
    "strip ''Hello'' = ''Hello''" "strip ''<p>Hi</p>'' = ''<p>Hi</p>''"
    by code_simp+
  from plain_text_preferred [OF h1 h2 h3 h4, of w0] p e
  show ?thesis by simp
qed

subsection \<open>C6: an empty inbox\<close>

text \<open>  C6. When \<open>list_messages\<close> returns the empty list, the run returns normally after that
  one call: no crew is started and \<open>create_draft\<close> is not called.\<close>

theorem empty_inbox_is_noop:
  assumes "fst (list_messages g 1 w) = Returned []"
  shows "run_email_automation g c w = (Returned (), emit (MessagesList 1) w) \<and>
         llm_calls (calls (snd (run_email_automation g c w))) = llm_calls (calls w) \<and>
         create_draft_calls (calls (snd (run_email_automation g c w))) = create_draft_calls (calls w)"
proof -
  have "list_messages g 1 w = (Returned [], emit (MessagesList 1) w)"
    using assms list_messages_world [of g 1 w] by (cases "list_messages g 1 w") auto
  then have "run_email_automation g c w = (Returned (), emit (MessagesList 1) w)"
    by (simp add: run_email_automation_def get_latest_email_def)
  then show ?thesis
    by (simp add: emit_def llm_calls_def create_draft_calls_append)
qed

theorem empty_inbox_is_noop_witness:
  "fst (list_messages (demo_gateway []) 1 w0) = Returned [] \<and>
   run_email_automation (demo_gateway []) (demo_crews ''Follow-up'' (drafted ''Sure.'')) w0 =
     (Returned (), \<lparr>stdout = OriginalStdout, calls = [MessagesList 1]\<rparr>)"
proof -
  have h: "fst (list_messages (demo_gateway []) 1 w0) = Returned []" by code_simp
  have e: "emit (MessagesList 1) w0 = \<lparr>stdout = OriginalStdout, calls = [MessagesList 1]\<rparr>"
    by (simp add: emit_def w0_def)
  from empty_inbox_is_noop [OF h, of "demo_crews ''Follow-up'' (drafted ''Sure.'')"] h
  show ?thesis unfolding e by simp
qed

subsection \<open>C7: what create_draft returns\<close>

text \<open>
  C7, as stated, fails: the value returned is the draft resource of the response, not
  its identifier.
\<close>

theorem create_draft_returns_resource_not_id:
  "mime_message (demo_gateway []) ''ann@example.org'' ''Re: Lunch'' ''Sure.'' =
     Inr (mime_prefix @ ''U3VyZS4='') \<and>
   drafts_create (demo_gateway []) (mime_prefix @ ''U3VyZS4='') = Inr demo_draft \<and>
   map_of demo_draft ''id'' = Some (JString ''r-1'') \<and>
   fst (create_draft (demo_gateway []) ''ann@example.org'' ''Re: Lunch'' ''Sure.'' w0) =
     Returned (JObject demo_draft) \<and>
   fst (create_draft (demo_gateway []) ''ann@example.org'' ''Re: Lunch'' ''Sure.'' w0) \<noteq>
     Returned (JString ''r-1'')"
  by (simp add: create_draft_def demo_gateway_def demo_mime_def demo_draft_def Let_def)

text \<open>
  C7, amended. When the message can be built and the API answers with a draft resource
  that has an \<open>id\<close> entry, \<open>create_draft\<close> returns that resource, and the one request
  it makes is \<open>drafts.create\<close> with the encoded message. When the message cannot be
  built, the exception is raised before any request is made. On no path is a request
  made that sends mail.
\<close>

theorem create_draft_saves_and_returns_draft:
  "(\<forall>raw_message draft i.
      mime_message g to subj bdy = Inr raw_message \<and>
      drafts_create g raw_message = Inr draft \<and> map_of draft ''id'' = Some i \<longrightarrow>
      create_draft g to subj bdy w =
        (Returned (JObject draft),
         w\<lparr>calls := calls w @ [CreateDraft to subj bdy, DraftsCreate raw_message]\<rparr>)) \<and>
   (\<forall>e. mime_message g to subj bdy = Inl e \<longrightarrow>
      create_draft g to subj bdy w =
        (Raised e, w\<lparr>calls := calls w @ [CreateDraft to subj bdy]\<rparr>)) \<and>
   filter is_send (calls (snd (create_draft g to subj bdy w))) = filter is_send (calls w)"
  by (auto simp: create_draft_def emit_def Let_def split: sum.splits option.splits)

theorem create_draft_saves_and_returns_draft_witness:
  "map_of demo_draft ''id'' = Some (JString ''r-1'') \<and>
   create_draft (demo_gateway []) ''ann@example.org'' ''Re: Lunch'' ''Sure.'' w0 =
     (Returned (JObject demo_draft),
      \<lparr>stdout = OriginalStdout,
       calls = [CreateDraft ''ann@example.org'' ''Re: Lunch'' ''Sure.'',
                DraftsCreate (mime_prefix @ ''U3VyZS4='')]\<rparr>) \<and>
   mime_message (demo_gateway []) ''ann@example.org'' injected_subject ''Sure.'' =
     Inl HeaderParseError \<and>
   create_draft (demo_gateway []) ''ann@example.org'' injected_subject ''Sure.'' w0 =
     (Raised HeaderParseError,
      \<lparr>stdout = OriginalStdout,
       calls = [CreateDraft ''ann@example.org'' injected_subject ''Sure.'']\<rparr>)"
proof -
  let ?g = "demo_gateway []"
  have h1: "mime_message ?g ''ann@example.org'' ''Re: Lunch'' ''Sure.'' =
              Inr (mime_prefix @ ''U3VyZS4='')"
    by (simp add: demo_gateway_def demo_mime_def)
  have h2: "drafts_create ?g (mime_prefix @ ''U3VyZS4='') = Inr demo_draft"
    by (simp add: demo_gateway_def)
  have h3: "map_of demo_draft ''id'' = Some (JString ''r-1'')"
    by (simp add: demo_draft_def)
  have h4: "mime_message ?g ''ann@example.org'' injected_subject ''Sure.'' = Inl HeaderParseError"
    by (simp add: demo_gateway_def demo_mime_def injected_subject_def)
  from create_draft_saves_and_returns_draft [of ?g "''ann@example.org''" "''Re: Lunch''" "''Sure.''" w0]
    h1 h2 h3
  have a: "create_draft ?g ''ann@example.org'' ''Re: Lunch'' ''Sure.'' w0 =
      (Returned (JObject demo_draft),
       w0\<lparr>calls := calls w0 @ [CreateDraft ''ann@example.org'' ''Re: Lunch'' ''Sure.'',
                                  DraftsCreate (mime_prefix @ ''U3VyZS4='')]\<rparr>)"
    by blast
  from create_draft_saves_and_returns_draft [of ?g "''ann@example.org''" injected_subject "''Sure.''" w0]
    h4
  have b: "create_draft ?g ''ann@example.org'' injected_subject ''Sure.'' w0 =
      (Raised HeaderParseError,
       w0\<lparr>calls := calls w0 @ [CreateDraft ''ann@example.org'' injected_subject ''Sure.'']\<rparr>)"
    by blast
  from a b h3 h4 show ?thesis by (simp add: w0_def)
qed

subsection \<open>C8: the failure signal of read_message\<close>

text \<open>  C8, as stated, fails for a fetch that fails with anything other than \<open>HttpError\<close>: the
  exception leaves \<open>read_message\<close>.\<close>

theorem read_message_transport_error_raises:
  "messages_get (demo_gateway []) ''m9'' = Inl (OtherException ''timed out'') \<and>
   fst (read_message (demo_gateway []) ''m9'' w0) = Raised (OtherException ''timed out'')"
  by code_simp

text \<open>  C8, amended. \<open>read_message\<close> returns \<open>None\<close> exactly when the fetch raises
  \<open>HttpError\<close>; any other exception of the fetch, and a decoding error, is raised to the
  caller; a fetched payload that decodes is returned as the normalized message.\<close>

theorem read_message_failure_signal:
  "(fst (read_message g msg_id w) = Returned None \<longleftrightarrow> messages_get g msg_id = Inl HttpError) \<and>
   (\<forall>e. messages_get g msg_id = Inl e \<and> e \<noteq> HttpError \<longrightarrow>
        fst (read_message g msg_id w) = Raised e) \<and>
   (\<forall>pl m. messages_get g msg_id = Inr pl \<and> decode_payload g pl = Returned m \<longrightarrow>
        fst (read_message g msg_id w) = Returned (Some m)) \<and>
   (\<forall>pl e. messages_get g msg_id = Inr pl \<and> decode_payload g pl = Raised e \<longrightarrow>
        fst (read_message g msg_id w) = Raised e)"
  by (auto simp: read_message_def Let_def split: sum.splits exn.splits outcome.splits)

theorem read_message_failure_signal_witness:
  "messages_get (demo_gateway []) ''gone'' = Inl HttpError \<and>
   fst (read_message (demo_gateway []) ''gone'' w0) = Returned None \<and>
   messages_get (demo_gateway []) ''m9'' = Inl (OtherException ''timed out'') \<and>
   fst (read_message (demo_gateway []) ''m9'' w0) = Raised (OtherException ''timed out'') \<and>
   fst (read_message (demo_gateway []) ''m1'' w0) = Returned (Some demo_email)"
proof -
  let ?g = "demo_gateway []"
  let ?p = "Part demo_headers (Some ''text/plain'') (Some ''SGVsbG8='') None"
  have h1: "messages_get ?g ''gone'' = Inl HttpError" by code_simp
  have h2: "messages_get ?g ''m9'' = Inl (OtherException ''timed out'')" by code_simp
  have h3: "messages_get ?g ''m1'' = Inr (Some ?p)" by code_simp
  have h4: "decode_payload ?g (Some ?p) = Returned demo_email" by code_simp
  from read_message_failure_signal [of ?g "''gone''" w0] h1
  have a: "fst (read_message ?g ''gone'' w0) = Returned None" by blast
  from read_message_failure_signal [of ?g "''m9''" w0] h2
  have b: "fst (read_message ?g ''m9'' w0) = Raised (OtherException ''timed out'')" by blast
  from read_message_failure_signal [of ?g "''m1''" w0] h3 h4
  have c: "fst (read_message ?g ''m1'' w0) = Returned (Some demo_email)" by blast
  from a b c h1 h2 show ?thesis by simp
qed

subsection \<open>C9: restoring standard output\<close>

text \<open>  C9. Standard output should be back on the original stream after the drafting call on
  every path. When the drafting kick-off raises, the assignment that restores it is
  skipped and the handler does not make up for it: the run ends with standard output
  still on the capture buffer.\<close>

theorem draft_exception_leaves_stdout_redirected:
  "stdout w0 = OriginalStdout \<and>
   run_email_automation (demo_gateway [''m1''])
       (demo_crews ''Follow-up'' ([], Inl (OtherException ''rate limit''))) w0 =
     (Returned (),
      \<lparr>stdout = CaptureBuffer,
       calls = [MessagesList 1, MessagesGet ''m1'',
                KickoffDecision ''Lunch'' ''ann@example.org'' ''Hello'',
                KickoffDraft ''Hello'' (Some ''follow-up'')]\<rparr>)"
  by code_simp

subsection \<open>C10: a decision that cannot be extracted\<close>

text \<open>  C10. When the crew result has no \<open>tasks_output\<close>, or the decision extracted from it is
  \<open>None\<close> or empty, a run that got as far as the decision step starts the drafting crew,
  with the email text and that decision.\<close>

theorem missing_decision_proceeds_to_draft:
  assumes "get_latest_email g w = (Returned (Some email_data), w1)"
    and "strip (body email_data) \<noteq> []"
    and "decision_kickoff c = Inr result"
    and "tasks_output result = None \<or> snd (extract_decision result) = None
         \<or> snd (extract_decision result) = Some []"
  shows "drafting_calls (calls (snd (run_email_automation g c w))) =
           drafting_calls (calls w) @
             [KickoffDraft (strip (body email_data)) (snd (extract_decision result))]"
proof -
  have "snd (extract_decision result) = None \<or> snd (extract_decision result) = Some []"
    using assms(4) by (auto simp: extract_decision_def)
  then have nr: "\<not> no_reply (snd (extract_decision result))" by auto
  show ?thesis
    unfolding run_reaches_draft [OF assms(1-3) nr] snd_catch_all draft_stage_drafting_calls
    using get_latest_email_world(3) [OF assms(1)]
    by (simp add: emit_def drafting_calls_def)
qed

theorem missing_decision_proceeds_to_draft_witness:
  "tasks_output opaque_result = None \<and>
   drafting_calls (calls (snd (run_email_automation (demo_gateway [''m1''])
       \<lparr>decision_kickoff = Inr opaque_result, draft_kickoff = drafted ''Sure.''\<rparr> w0))) =
     [KickoffDraft ''Hello'' None]"
proof -
  let ?c = "\<lparr>decision_kickoff = Inr opaque_result, draft_kickoff = drafted ''Sure.''\<rparr>"
  have h3: "decision_kickoff ?c = Inr opaque_result" by simp
  have h4: "tasks_output opaque_result = None \<or> snd (extract_decision opaque_result) = None
            \<or> snd (extract_decision opaque_result) = Some []"
    by (simp add: opaque_result_def)
  have e: "drafting_calls (calls w0) = []" "strip (body demo_email) = ''Hello''"
    "snd (extract_decision opaque_result) = None" "tasks_output opaque_result = None"
    by code_simp+
  from missing_decision_proceeds_to_draft [OF demo_fetch demo_body h3 h4]
  show ?thesis unfolding e by simp
qed

end
